theory Spec2Isabelle
  imports Main "HOL-Library.Word"
begin

unbundle bit_operations_syntax

section \<open>Data model\<close>

text \<open>
  The program (\<open>src/main.py\<close>) reads an image, embeds its base64 text in an XML
  document built from a declarative description, and later scans such a document for
  long text nodes which it decodes and writes back as image files.

  Python strings are lists of characters, byte strings are lists of 8-bit words.
\<close>

type_synonym byte = "8 word"

text \<open>
  An \<open>xml.etree.ElementTree.Element\<close>: a tag, the attribute dictionary (insertion
  ordered, hence an association list), the optional text and the child elements.
\<close>

datatype element =
  Element (tag: string) (attrib: "(string \<times> string) list")
    (etext: "string option") (children: "element list")

text \<open>
  One dictionary of \<open>elements_data\<close> (docstring of \<open>create_xml_file\<close>): each of the
  keys \<open>'tag'\<close>, \<open>'attributes'\<close>, \<open>'text'\<close> and \<open>'children'\<close> may be absent.  The code
  reads \<open>'tag'\<close> and \<open>'text'\<close> with \<open>dict.get\<close> and no default, so for these two an absent
  key and an explicit \<open>None\<close> are the same value \<open>None\<close>.
\<close>

datatype element_data =
  ElementData (get_tag: "string option") (get_attributes: "(string \<times> string) list option")
    (get_text: "string option") (get_children: "element_data list option")

text \<open>The exceptions the program can meet, each with the message \<open>str(e)\<close> prints.\<close>

datatype error =
    FileNotFoundError string
  | OSError string
  | TypeError string
  | ValueError string
  | BinasciiError string
  | ParseError string

fun str_error :: "error \<Rightarrow> string" where
  "str_error (FileNotFoundError m) = m"
| "str_error (OSError m) = m"
| "str_error (TypeError m) = m"
| "str_error (ValueError m) = m"
| "str_error (BinasciiError m) = m"
| "str_error (ParseError m) = m"

text \<open>
  The state the program acts on: the lines printed so far, the regular files and the
  directories of the file system.
\<close>

record world =
  stdout :: "string list"
  files :: "string \<rightharpoonup> byte list"
  dirs :: "string set"

text \<open>
  What the program takes from its platform and does not define itself: whether the
  operating system refuses to open or create a path (with the message of the resulting
  \<open>OSError\<close>), ElementTree's serializer and parser, and Python's \<open>repr\<close> of an attribute
  dictionary.  They are parameters of the model.  The serializer either completes
  (\<open>Inr\<close> the document's bytes) or raises having written some bytes (\<open>Inl\<close>), as
  ElementTree does on a tag such as \<open>{x\<close>.
\<close>

record env =
  denied :: "string \<Rightarrow> string option"
  xml_serialize :: "element \<Rightarrow> (error \<times> byte list) + byte list"
  xml_parse :: "byte list \<Rightarrow> string + element"
  repr_attrib :: "(string \<times> string) list \<Rightarrow> string"

definition print :: "string \<Rightarrow> world \<Rightarrow> world" where
  "print line w = w\<lparr>stdout := stdout w @ [line]\<rparr>"

section \<open>Tree builder and document writer: \<open>create_xml_file\<close>\<close>

text \<open>\<open>ET.SubElement(parent, tag)\<close> makes an empty element; it is appended to its parent.\<close>

definition SubElement :: "string \<Rightarrow> element" where
  "SubElement t = Element t [] None []"

definition append_child :: "element \<Rightarrow> element \<Rightarrow> element" where
  "append_child parent e = Element (tag parent) (attrib parent) (etext parent) (children parent @ [e])"

text \<open>\<open>element.set(attr, value)\<close>: dictionary assignment, a known key keeps its place.\<close>

fun dict_set :: "(string \<times> string) list \<Rightarrow> string \<Rightarrow> string \<Rightarrow> (string \<times> string) list" where
  "dict_set [] k v = [(k, v)]"
| "dict_set ((k', v') # kvs) k v = (if k' = k then (k, v) # kvs else (k', v') # dict_set kvs k v)"

definition set_attr :: "element \<Rightarrow> string \<Rightarrow> string \<Rightarrow> element" where
  "set_attr e k v = Element (tag e) (dict_set (attrib e) k v) (etext e) (children e)"

definition set_text :: "element \<Rightarrow> string \<Rightarrow> element" where
  "set_text e t = Element (tag e) (attrib e) (Some t) (children e)"

text \<open>Python's \<open>not tag\<close> for an optional string: true for \<open>None\<close> and for the empty string.\<close>

fun not_tag :: "string option \<Rightarrow> bool" where
  "not_tag None = True"
| "not_tag (Some t) = (t = [])"

definition warning_line :: string where
  "warning_line = ''Warning: 'tag' is missing in element data. Skipping.''"

text \<open>
  \<open>_add_element(parent, element_data)\<close> (lines 70-91) and the loop over a list of
  element data (lines 88-89, and again lines 93-94).  The source appends the new element
  to its parent first and fills it in place afterwards; the model fills it and appends it
  then, which builds the same tree.  The result is the value returned (the element, or
  \<open>None\<close> when skipped), the parent as it is after the call, and the world.
\<close>

fun add_element :: "element \<Rightarrow> element_data \<Rightarrow> world \<Rightarrow> element option \<times> element \<times> world"
  and add_elements :: "element \<Rightarrow> element_data list \<Rightarrow> world \<Rightarrow> element \<times> world"
where
  "add_element parent (ElementData tg attributes txt chn) w =
     (if not_tag tg then (None, parent, print warning_line w)
      else
        let element = SubElement (the tg);
            element = fold (\<lambda>(attr, val) e. set_attr e attr val)
                        (case attributes of None \<Rightarrow> [] | Some d \<Rightarrow> d) element;
            element = (case txt of None \<Rightarrow> element | Some t \<Rightarrow> set_text element t);
            (element, w) = (case chn of None \<Rightarrow> (element, w)
                            | Some cs \<Rightarrow> add_elements element cs w)
        in (Some element, append_child parent element, w))"
| "add_elements parent [] w = (parent, w)"
| "add_elements parent (child_data # rest) w =
     (case add_element parent child_data w of (_, parent, w) \<Rightarrow> add_elements parent rest w)"

text \<open>
  \<open>tree.write(filename, encoding='utf-8', xml_declaration=True)\<close> (line 101): opens the
  file for writing, which raises when the platform refuses, and writes the serialized
  tree to it; when the serializer raises, the file keeps what had been written.
\<close>

definition tree_write :: "env \<Rightarrow> element \<Rightarrow> string \<Rightarrow> world \<Rightarrow> (error + unit) \<times> world" where
  "tree_write ev root filename w =
     (case denied ev filename of
        Some msg \<Rightarrow> (Inl (OSError msg), w)
      | None \<Rightarrow>
          (case xml_serialize ev root of
             Inl (e, partial) \<Rightarrow> (Inl e, w\<lparr>files := (files w)(filename \<mapsto> partial)\<rparr>)
           | Inr document \<Rightarrow> (Inr (), w\<lparr>files := (files w)(filename \<mapsto> document)\<rparr>)))"

text \<open>
  Lines 63-94 of \<open>create_xml_file\<close>: the default for \<open>elements_data\<close>, the root element
  and the loop that adds every top-level element under it.
\<close>

definition build_root :: "string \<Rightarrow> element_data list option \<Rightarrow> world \<Rightarrow> element \<times> world" where
  "build_root root_name elements_data w =
     (let elements_data = (case elements_data of
                             None \<Rightarrow> [ElementData (Some ''element'') None None None]
                           | Some ds \<Rightarrow> ds);
          root = Element root_name [] None []
      in add_elements root elements_data w)"

text \<open>
  \<open>create_xml_file(filename, root_name, elements_data)\<close>.  The whole body stands in one
  \<open>try\<close> whose handler prints the exception and returns \<open>False\<close>; on typed input the only
  statement that can raise is the write.
\<close>

definition create_xml_file ::
    "env \<Rightarrow> string \<Rightarrow> string \<Rightarrow> element_data list option \<Rightarrow> world \<Rightarrow> bool \<times> world" where
  "create_xml_file ev filename root_name elements_data w =
     (case build_root root_name elements_data w of
        (root, w) \<Rightarrow>
          (case tree_write ev root filename w of
             (Inl e, w) \<Rightarrow>
               (False, print (''An error occurred while creating the XML file: '' @ str_error e) w)
           | (Inr _, w) \<Rightarrow>
               (True, print (''Successfully created XML file: '' @ filename) w)))"

section \<open>Binary-to-text codec: Python's \<open>base64\<close> module\<close>

text \<open>
  \<open>base64.b64encode\<close> and \<open>base64.b64decode\<close> belong to Python's standard library, not
  to this repository.  They are modelled after the library's behaviour: the standard
  alphabet of RFC 4648 with \<open>=\<close> padding, and the lenient decoder of
  \<open>binascii.a2b_base64\<close> that \<open>b64decode\<close> calls when \<open>validate\<close> is left \<open>False\<close>.
\<close>

text \<open>The table \<open>table_b2a_base64\<close>: \<open>A-Z\<close>, \<open>a-z\<close>, \<open>0-9\<close>, \<open>+\<close>, \<open>/\<close>.\<close>

definition table_b2a_base64 :: "byte \<Rightarrow> char" where
  "table_b2a_base64 b =
     (let n = unat b in
      if n < 26 then char_of (n + 65)
      else if n < 52 then char_of (n + 71)
      else if n < 62 then char_of (n - 4)
      else if n = 62 then CHR ''+''
      else CHR ''/'')"

text \<open>The inverse table \<open>table_a2b_base64\<close>; \<open>None\<close> for a character outside the alphabet.\<close>

definition table_a2b_base64 :: "char \<Rightarrow> byte option" where
  "table_a2b_base64 c =
     (let n = (of_char c :: nat) in
      if 65 \<le> n \<and> n \<le> 90 then Some (of_nat (n - 65))
      else if 97 \<le> n \<and> n \<le> 122 then Some (of_nat (n - 71))
      else if 48 \<le> n \<and> n \<le> 57 then Some (of_nat (n + 4))
      else if n = 43 then Some 62
      else if n = 47 then Some 63
      else None)"

text \<open>
  \<open>binascii.b2a_base64(data, newline=False)\<close>: three bytes give four characters, a last
  group of one or two bytes is padded with \<open>=\<close>.
\<close>

fun b2a_base64 :: "byte list \<Rightarrow> string" where
  "b2a_base64 (a # b # c # rest) =
     [table_b2a_base64 (drop_bit 2 a),
      table_b2a_base64 (push_bit 4 (a AND 3) OR drop_bit 4 b),
      table_b2a_base64 (push_bit 2 (b AND 15) OR drop_bit 6 c),
      table_b2a_base64 (c AND 63)] @ b2a_base64 rest"
| "b2a_base64 [a, b] =
     [table_b2a_base64 (drop_bit 2 a),
      table_b2a_base64 (push_bit 4 (a AND 3) OR drop_bit 4 b),
      table_b2a_base64 (push_bit 2 (b AND 15)),
      CHR ''='']"
| "b2a_base64 [a] =
     [table_b2a_base64 (drop_bit 2 a),
      table_b2a_base64 (push_bit 4 (a AND 3)),
      CHR ''='', CHR ''='']"
| "b2a_base64 [] = []"

text \<open>\<open>base64.b64encode(s)\<close>, and the \<open>.decode('utf-8')\<close> of its ASCII result (line 21).\<close>

definition b64encode :: "byte list \<Rightarrow> string" where
  "b64encode s = b2a_base64 s"

text \<open>Python's \<open>str\<close> of a non-negative integer, as an f-string formats it.\<close>

fun str_nat :: "nat \<Rightarrow> string" where
  "str_nat n =
     (if n < 10 then [''0123456789'' ! n]
      else str_nat (n div 10) @ [''0123456789'' ! (n mod 10)])"

declare str_nat.simps [simp del]

text \<open>
  The loop of \<open>binascii.a2b_base64\<close> in its non-strict mode, with the state it keeps:
  the position in the current group of four (\<open>quad_pos\<close>), the bits left over from the
  previous character (\<open>leftchar\<close>), the number of \<open>=\<close> seen in a row (\<open>pads\<close>) and the bytes
  produced so far.  A character outside the alphabet is skipped; padding that completes a
  group ends the decoding, whatever follows; input that ends inside a group is an error.
\<close>

fun a2b_base64 :: "string \<Rightarrow> nat \<Rightarrow> byte \<Rightarrow> nat \<Rightarrow> byte list \<Rightarrow> error + byte list" where
  "a2b_base64 [] quad_pos leftchar pads bin_data =
     (if quad_pos = 0 then Inr bin_data
      else if quad_pos = 1 then
        Inl (BinasciiError (''Invalid base64-encoded string: number of data characters (''
               @ str_nat (length bin_data div 3 * 4 + 1)
               @ '') cannot be 1 more than a multiple of 4''))
      else Inl (BinasciiError ''Incorrect padding''))"
| "a2b_base64 (this_ch # rest) quad_pos leftchar pads bin_data =
     (if this_ch = CHR ''='' then
        (if 2 \<le> quad_pos then
           (if 4 \<le> quad_pos + (pads + 1) then Inr bin_data
            else a2b_base64 rest quad_pos leftchar (pads + 1) bin_data)
         else a2b_base64 rest quad_pos leftchar pads bin_data)
      else
        (case table_a2b_base64 this_ch of
           None \<Rightarrow> a2b_base64 rest quad_pos leftchar pads bin_data
         | Some v \<Rightarrow>
             (if quad_pos = 0 then a2b_base64 rest 1 v 0 bin_data
              else if quad_pos = 1 then
                a2b_base64 rest 2 (v AND 15) 0 (bin_data @ [push_bit 2 leftchar OR drop_bit 4 v])
              else if quad_pos = 2 then
                a2b_base64 rest 3 (v AND 3) 0 (bin_data @ [push_bit 4 leftchar OR drop_bit 2 v])
              else
                a2b_base64 rest 0 0 0 (bin_data @ [push_bit 6 leftchar OR v]))))"

text \<open>
  \<open>base64.b64decode(s)\<close> for a \<open>str\<close> argument: the string is first encoded as ASCII,
  which raises \<open>ValueError\<close> on any other character, and then decoded.
\<close>

definition b64decode :: "string \<Rightarrow> error + byte list" where
  "b64decode s =
     (if \<exists>c \<in> set s. 128 \<le> (of_char c :: nat)
      then Inl (ValueError ''string argument should contain only ASCII characters'')
      else a2b_base64 s 0 0 0 [])"

section \<open>Files\<close>

text \<open>
  \<open>open(path, 'rb').read()\<close>: a missing file raises \<open>FileNotFoundError\<close>, a file the
  platform refuses to open raises \<open>OSError\<close>.
\<close>

definition read_file :: "env \<Rightarrow> string \<Rightarrow> world \<Rightarrow> error + byte list" where
  "read_file ev path w =
     (case files w path of
        None \<Rightarrow> Inl (FileNotFoundError (''[Errno 2] No such file or directory: '' @ path))
      | Some content \<Rightarrow>
          (case denied ev path of
             Some msg \<Rightarrow> Inl (OSError msg)
           | None \<Rightarrow> Inr content))"

text \<open>\<open>with open(path, 'wb') as f: f.write(data)\<close> (lines 142-143).\<close>

definition write_file :: "env \<Rightarrow> string \<Rightarrow> byte list \<Rightarrow> world \<Rightarrow> (error + unit) \<times> world" where
  "write_file ev path content w =
     (case denied ev path of
        Some msg \<Rightarrow> (Inl (OSError msg), w)
      | None \<Rightarrow> (Inr (), w\<lparr>files := (files w)(path \<mapsto> content)\<rparr>))"

text \<open>\<open>os.makedirs(path, exist_ok=True)\<close> (line 134).\<close>

definition makedirs :: "env \<Rightarrow> string \<Rightarrow> world \<Rightarrow> (error + unit) \<times> world" where
  "makedirs ev path w =
     (case denied ev path of
        Some msg \<Rightarrow> (Inl (OSError msg), w)
      | None \<Rightarrow> (Inr (), w\<lparr>dirs := insert path (dirs w)\<rparr>))"

text \<open>\<open>os.path.join(a, b)\<close> on a POSIX platform: an absolute \<open>b\<close> replaces \<open>a\<close>.\<close>

definition path_join :: "string \<Rightarrow> string \<Rightarrow> string" where
  "path_join a b =
     (if take 1 b = ''/'' then b
      else if a = [] \<or> last a = CHR ''/'' then a @ b
      else a @ ''/'' @ b)"

section \<open>Encoder: \<open>encode_image_to_base64\<close>\<close>

text \<open>
  Lines 6-34.  The result is the base64 string, or \<open>None\<close> after a printed diagnostic when
  the image cannot be read.
\<close>

definition encode_image_to_base64 :: "env \<Rightarrow> string \<Rightarrow> world \<Rightarrow> string option \<times> world" where
  "encode_image_to_base64 ev image_path w =
     (case read_file ev image_path w of
        Inr content \<Rightarrow> (Some (b64encode content), w)
      | Inl (FileNotFoundError m) \<Rightarrow>
          (None, print (''Error: Image file not found at '' @ image_path) w)
      | Inl e \<Rightarrow> (None, print (''An error occurred: '' @ str_error e) w))"

section \<open>Payload writer: \<open>save_base64_to_image\<close>\<close>

text \<open>
  The \<open>try\<close> body of \<open>save_base64_to_image\<close> (lines 133-145): the first statement that
  raises ends it, with the world as it is at that moment.
\<close>

definition save_body :: "env \<Rightarrow> string \<Rightarrow> string \<Rightarrow> world \<Rightarrow> (error + unit) \<times> world" where
  "save_body ev base64_string image_filename w =
     (let output_folder = ''extracted_images'' in
      case makedirs ev output_folder w of
        (Inl e, w) \<Rightarrow> (Inl e, w)
      | (Inr _, w) \<Rightarrow>
          (let output_file_path = path_join output_folder image_filename in
           case b64decode base64_string of
             Inl e \<Rightarrow> (Inl e, w)
           | Inr image_data \<Rightarrow>
               (case write_file ev output_file_path image_data w of
                  (Inl e, w) \<Rightarrow> (Inl e, w)
                | (Inr _, w) \<Rightarrow>
                    (Inr (), print (''Successfully saved image to: '' @ output_file_path) w))))"

text \<open>
  \<open>save_base64_to_image(base64_string, image_filename)\<close> with its two handlers (lines
  147-150).  No path of the function has a \<open>return\<close> statement, so the value returned is
  always \<open>None\<close>; the type \<open>string option\<close> leaves room for the path a caller might expect.
\<close>

definition save_base64_to_image :: "env \<Rightarrow> string \<Rightarrow> string \<Rightarrow> world \<Rightarrow> string option \<times> world" where
  "save_base64_to_image ev base64_string image_filename w =
     (case save_body ev base64_string image_filename w of
        (Inr _, w) \<Rightarrow> (None, w)
      | (Inl (BinasciiError m), w) \<Rightarrow> (None, print (''Error decoding Base64 data: '' @ m) w)
      | (Inl e, w) \<Rightarrow>
          (None, print (''An error occurred while saving the image: '' @ str_error e) w))"

section \<open>Document scanner: \<open>convert_xml_images\<close>\<close>

text \<open>\<open>ET.parse(xml_file_path).getroot()\<close> (lines 114-115).\<close>

definition ET_parse :: "env \<Rightarrow> string \<Rightarrow> world \<Rightarrow> error + element" where
  "ET_parse ev path w =
     (case read_file ev path w of
        Inl e \<Rightarrow> Inl e
      | Inr content \<Rightarrow>
          (case xml_parse ev content of
             Inl msg \<Rightarrow> Inl (ParseError msg)
           | Inr root \<Rightarrow> Inr root))"

definition image_name :: "nat \<Rightarrow> string" where
  "image_name image_index = ''extracted_image'' @ str_nat image_index @ ''.jpg''"

text \<open>
  The inner loop (lines 120-125) over the children of one child of the root.  It threads
  \<open>image_index\<close> and the world; \<open>len(level_2_child.text)\<close> raises \<open>TypeError\<close> when the
  element has no text, which leaves both loops.
\<close>

fun scan_level_2 :: "env \<Rightarrow> element list \<Rightarrow> nat \<Rightarrow> world \<Rightarrow> (error + nat) \<times> world" where
  "scan_level_2 ev [] image_index w = (Inr image_index, w)"
| "scan_level_2 ev (level_2_child # rest) image_index w =
     (let w = print (''[2]---- '' @ tag level_2_child @ ''  --> ''
                       @ repr_attrib ev (attrib level_2_child)) w in
      case etext level_2_child of
        None \<Rightarrow> (Inl (TypeError ''object of type 'NoneType' has no len()''), w)
      | Some t \<Rightarrow>
          (if 100 < length t then
             (let w = print (''Downloading image ['' @ str_nat image_index @ '']...'') w;
                  w = snd (save_base64_to_image ev t (image_name image_index) w)
              in scan_level_2 ev rest (image_index + 1) w)
           else scan_level_2 ev rest image_index w))"

text \<open>The outer loop (lines 118-125) over the children of the root.\<close>

fun scan_level_1 :: "env \<Rightarrow> element list \<Rightarrow> nat \<Rightarrow> world \<Rightarrow> (error + nat) \<times> world" where
  "scan_level_1 ev [] image_index w = (Inr image_index, w)"
| "scan_level_1 ev (level_1_child # rest) image_index w =
     (let w = print (''[1]---- '' @ tag level_1_child @ ''  --> ''
                       @ repr_attrib ev (attrib level_1_child)) w in
      case scan_level_2 ev (children level_1_child) image_index w of
        (Inl e, w) \<Rightarrow> (Inl e, w)
      | (Inr image_index, w) \<Rightarrow> scan_level_1 ev rest image_index w)"

text \<open>
  \<open>convert_xml_images(xml_file_path)\<close>: one \<open>try\<close> around everything, whose handler prints
  the exception.  The function returns nothing; the model returns the world.
\<close>

definition convert_xml_images :: "env \<Rightarrow> string \<Rightarrow> world \<Rightarrow> world" where
  "convert_xml_images ev xml_file_path w =
     (case ET_parse ev xml_file_path w of
        Inl e \<Rightarrow> print (str_error e) w
      | Inr root \<Rightarrow>
          (let w = print (''[0]-- '' @ tag root) w in
           case scan_level_1 ev (children root) 0 w of
             (Inl e, w) \<Rightarrow> print (str_error e) w
           | (Inr _, w) \<Rightarrow> w))"

section \<open>A concrete platform and concrete inputs\<close>

text \<open>
  A small platform on which the theorems below are instantiated: the path
  \<open>/readonly/image.xml\<close> cannot be opened, the serializer writes the root's tag as bytes and
  fails on a root tag starting with \<open>{\<close>, the parser knows one document.
\<close>

definition empty_world :: world where
  "empty_world = \<lparr>stdout = [], files = Map.empty, dirs = {}\<rparr>"

definition payload_104 :: string where
  "payload_104 = replicate 104 (CHR ''A'')"

definition malformed_101 :: string where
  "malformed_101 = replicate 101 (CHR ''A'')"

definition sample_document :: element where
  "sample_document =
     Element ''root'' [] None
       [Element ''group'' [] None
          [Element ''image_title'' [] (Some ''scenery.png.'') [],
           Element ''broken'' [] (Some malformed_101) [],
           Element ''image_string'' [] (Some payload_104) []]]"

definition sample_platform :: env where
  "sample_platform =
     \<lparr>denied = (\<lambda>path. if path = ''/readonly/image.xml''
                        then Some ''[Errno 13] Permission denied'' else None),
      xml_serialize = (\<lambda>root. if take 1 (tag root) = ''{''
                               then Inl (ValueError ''not enough values to unpack'', [])
                               else Inr (map (\<lambda>c. of_nat (of_char c)) (tag root))),
      xml_parse = (\<lambda>content. if content = [1] then Inr sample_document
                              else Inl ''syntax error: line 1, column 0''),
      repr_attrib = (\<lambda>d. if d = [] then ''{}'' else ''{...}'')\<rparr>"

section \<open>Properties of the tree builder\<close>

text \<open>The tree that is built does not depend on what has been printed or stored before.\<close>

lemma add_world_indep_aux:
  "(\<forall>v. fst (add_element p d w) = fst (add_element p d v) \<and>
        fst (snd (add_element p d w)) = fst (snd (add_element p d v)))"
  "(\<forall>v. fst (add_elements p ds w) = fst (add_elements p ds v))"
proof (induction p d w and p ds w rule: add_element_add_elements.induct)
  case (1 parent tg attrs tx chn w)
  show ?case
  proof (cases "not_tag tg")
    case True
    then show ?thesis by simp
  next
    case False
    show ?thesis
    proof (cases chn)
      case None
      with False show ?thesis by (simp add: Let_def)
    next
      case (Some cs)
      define e0 where "e0 = (case tx of
             None \<Rightarrow> fold (\<lambda>(attr, val) e. set_attr e attr val)
                        (case attrs of None \<Rightarrow> [] | Some d \<Rightarrow> d) (SubElement (the tg))
           | Some t \<Rightarrow> set_text (fold (\<lambda>(attr, val) e. set_attr e attr val)
                        (case attrs of None \<Rightarrow> [] | Some d \<Rightarrow> d) (SubElement (the tg))) t)"
      have ih: "fst (add_elements e0 cs w) = fst (add_elements e0 cs v)" for v
        using 1 [OF False refl refl refl Some] unfolding e0_def by blast
      have eq: "add_element parent (ElementData tg attrs tx chn) u =
          (Some (fst (add_elements e0 cs u)), append_child parent (fst (add_elements e0 cs u)),
           snd (add_elements e0 cs u))" for u
        using False Some by (simp add: Let_def split_beta e0_def)
      show ?thesis unfolding eq using ih by (metis fst_conv snd_conv)
    qed
  qed
next
  case (2 parent w)
  show ?case by simp
next
  case (3 parent child_data rest w)
  show ?case
  proof
    fix v
    obtain r p1 w1 where a: "add_element parent child_data w = (r, p1, w1)"
      by (cases "add_element parent child_data w")
    obtain r' p1' w1' where b: "add_element parent child_data v = (r', p1', w1')"
      by (cases "add_element parent child_data v")
    have "p1 = p1'" using 3(1) a b by (metis fst_conv snd_conv)
    moreover have "fst (add_elements p1 rest w1) = fst (add_elements p1 rest w1')"
      using 3(2) [OF a [symmetric] refl] by blast
    ultimately show "fst (add_elements parent (child_data # rest) w) =
         fst (add_elements parent (child_data # rest) v)" using a b by simp
  qed
qed

lemma add_elements_tree_indep: "fst (add_elements p ds w) = fst (add_elements p ds v)"
  using add_world_indep_aux(2) by blast

lemma add_elements_append:
  "add_elements p (xs @ ys) w =
     (case add_elements p xs w of (p1, w1) \<Rightarrow> add_elements p1 ys w1)"
proof (induction xs arbitrary: p w)
  case Nil
  show ?case by simp
next
  case (Cons x xs)
  show ?case by (simp add: Cons.IH split: prod.splits)
qed

lemma add_element_skip:
  "not_tag (get_tag d) \<Longrightarrow> add_element p d w = (None, p, print warning_line w)"
  by (cases d) simp

lemma fold_set_attr_etext:
  "etext (fold (\<lambda>(attr, val) e. set_attr e attr val) kvs e) = etext e"
  by (induction kvs arbitrary: e) (auto simp: set_attr_def)

text \<open>Adding children changes neither the tag, the attributes nor the text of the parent.\<close>

lemma add_keeps_parent_aux:
  "etext (fst (snd (add_element p d w))) = etext p \<and> tag (fst (snd (add_element p d w))) = tag p
     \<and> attrib (fst (snd (add_element p d w))) = attrib p"
  "etext (fst (add_elements p ds w)) = etext p \<and> tag (fst (add_elements p ds w)) = tag p
     \<and> attrib (fst (add_elements p ds w)) = attrib p"
proof (induction p d w and p ds w rule: add_element_add_elements.induct)
  case (1 parent tg attrs tx chn w)
  show ?case by (simp add: Let_def split_beta append_child_def)
next
  case (2 parent w)
  show ?case by simp
next
  case (3 parent child_data rest w)
  obtain r p1 w1 where a: "add_element parent child_data w = (r, p1, w1)"
    by (cases "add_element parent child_data w")
  show ?case using 3(1) 3(2) [OF a [symmetric] refl] a by simp
qed

text \<open>
  Claim C6.  An element description whose tag is missing or empty makes the builder print
  the warning and skip that description with everything below it: nothing is attached
  to the parent for it.  The descriptions before and after it in the same list are still
  processed in order, so the tree is the one built from the list without the offending
  description.  This holds for a list of children (lines 88-89) and for the top-level
  list of \<open>create_xml_file\<close> (lines 93-94).
\<close>

theorem missing_tag_skips_only_that_subtree:
  assumes "not_tag (get_tag bad)"
  shows "add_element parent bad w = (None, parent, print warning_line w) \<and>
         add_elements parent (xs @ bad # ys) w =
           (case add_elements parent xs w of
              (p1, w1) \<Rightarrow> add_elements p1 ys (print warning_line w1)) \<and>
         fst (add_elements parent (xs @ bad # ys) w) = fst (add_elements parent (xs @ ys) w) \<and>
         fst (build_root root_name (Some (xs @ bad # ys)) w) =
           fst (build_root root_name (Some (xs @ ys)) w)"
proof -
  have skip: "add_element p bad v = (None, p, print warning_line v)" for p v
    using assms by (rule add_element_skip)
  have step: "add_elements p (xs @ bad # ys) w =
      (case add_elements p xs w of (p1, w1) \<Rightarrow> add_elements p1 ys (print warning_line w1))" for p
    by (simp add: add_elements_append skip split: prod.splits)
  have tree: "fst (add_elements p (xs @ bad # ys) w) = fst (add_elements p (xs @ ys) w)" for p
  proof -
    obtain p1 w1 where a: "add_elements p xs w = (p1, w1)" by (cases "add_elements p xs w")
    have "fst (add_elements p (xs @ bad # ys) w) = fst (add_elements p1 ys (print warning_line w1))"
      by (simp add: step a)
    also have "\<dots> = fst (add_elements p1 ys w1)" by (rule add_elements_tree_indep)
    also have "\<dots> = fst (add_elements p (xs @ ys) w)" by (simp add: add_elements_append a)
    finally show ?thesis .
  qed
  show ?thesis using skip step tree by (simp add: build_root_def)
qed

theorem missing_tag_skips_only_that_subtree_witness:
  "not_tag (get_tag (ElementData (Some '''') None (Some ''t'')
                       (Some [ElementData (Some ''inner'') None None None]))) \<and>
   add_elements (Element ''root'' [] None [])
     ([ElementData (Some ''a'') None None None] @
      ElementData (Some '''') None (Some ''t'')
        (Some [ElementData (Some ''inner'') None None None]) #
      [ElementData (Some ''b'') None None None]) empty_world =
   (Element ''root'' [] None [Element ''a'' [] None [], Element ''b'' [] None []],
    print warning_line empty_world)"
  using missing_tag_skips_only_that_subtree
    [of "ElementData (Some '''') None (Some ''t'')
           (Some [ElementData (Some ''inner'') None None None])"
        "Element ''root'' [] None []" empty_world
        "[ElementData (Some ''a'') None None None]"
        "[ElementData (Some ''b'') None None None]" "''root''"]
  by (simp add: SubElement_def append_child_def Let_def)

text \<open>
  Claim C7.  For an element description with a usable tag, the element that is built and
  attached carries exactly the description's text field: no text when the field is absent
  or \<open>None\<close>, and otherwise that string, the empty string included.
\<close>

theorem text_set_iff_present:
  assumes "\<not> not_tag tg"
  shows "\<exists>e v. add_element parent (ElementData tg attrs tx chn) w =
                  (Some e, append_child parent e, v) \<and> etext e = tx"
proof -
  define e0 where "e0 = fold (\<lambda>(attr, val) e. set_attr e attr val)
                        (case attrs of None \<Rightarrow> [] | Some d \<Rightarrow> d) (SubElement (the tg))"
  define e1 where "e1 = (case tx of None \<Rightarrow> e0 | Some t \<Rightarrow> set_text e0 t)"
  define r where "r = (case chn of None \<Rightarrow> (e1, w) | Some cs \<Rightarrow> add_elements e1 cs w)"
  have "etext e0 = None" by (simp add: e0_def fold_set_attr_etext SubElement_def)
  then have e1: "etext e1 = tx" by (cases tx) (simp_all add: e1_def set_text_def)
  have "etext (fst r) = etext e1"
    by (cases chn) (simp_all add: r_def add_keeps_parent_aux(2))
  with e1 have "etext (fst r) = tx" by simp
  moreover have "add_element parent (ElementData tg attrs tx chn) w =
      (Some (fst r), append_child parent (fst r), snd r)"
    using assms by (cases chn; cases tx) (simp_all add: Let_def split_beta r_def e1_def e0_def)
  ultimately show ?thesis by blast
qed

theorem text_set_iff_present_witness:
  "\<not> not_tag (Some ''a'') \<and>
   (\<exists>e v. add_element (Element ''root'' [] None []) (ElementData (Some ''a'') None (Some '''') None)
             empty_world = (Some e, append_child (Element ''root'' [] None []) e, v)
          \<and> etext e = Some '''') \<and>
   (\<exists>e v. add_element (Element ''root'' [] None []) (ElementData (Some ''a'') None None None)
             empty_world = (Some e, append_child (Element ''root'' [] None []) e, v)
          \<and> etext e = None)"
  using text_set_iff_present [of "Some ''a''" "Element ''root'' [] None []" None "Some ''''" None empty_world]
        text_set_iff_present [of "Some ''a''" "Element ''root'' [] None []" None None None empty_world]
  by simp

section \<open>Properties of the document writer\<close>

text \<open>
  Claim C8.  \<open>create_xml_file\<close> never propagates an exception: its result is a boolean.  It
  is \<open>True\<close> exactly when the destination could be opened and the serialized document was
  written to it completely, and \<open>False\<close> exactly when the write raised (the destination was
  refused, or serialization failed).
\<close>

theorem create_xml_file_returns_success_flag:
  fixes ev filename root_name elements_data w
  defines "root \<equiv> fst (build_root root_name elements_data w)"
  defines "r \<equiv> create_xml_file ev filename root_name elements_data w"
  shows "(fst r \<longleftrightarrow> denied ev filename = None \<and>
            (\<exists>doc. xml_serialize ev root = Inr doc \<and> files (snd r) filename = Some doc)) \<and>
         (\<not> fst r \<longleftrightarrow>
            (\<exists>e. fst (tree_write ev root filename (snd (build_root root_name elements_data w)))
                    = Inl e))"
proof -
  obtain rt w1 where b: "build_root root_name elements_data w = (rt, w1)"
    by (cases "build_root root_name elements_data w")
  show ?thesis
    unfolding r_def root_def
    by (simp add: create_xml_file_def tree_write_def b print_def
             split: option.splits sum.splits prod.splits)
qed

theorem create_xml_file_returns_success_flag_witness:
  "fst (create_xml_file sample_platform ''image.xml'' ''root'' None empty_world) \<and>
   \<not> fst (create_xml_file sample_platform ''/readonly/image.xml'' ''root'' None empty_world) \<and>
   \<not> fst (create_xml_file sample_platform ''image.xml'' ''{x'' None empty_world)"
  using create_xml_file_returns_success_flag [of sample_platform "''image.xml''" "''root''" None empty_world]
        create_xml_file_returns_success_flag [of sample_platform "''/readonly/image.xml''" "''root''" None empty_world]
        create_xml_file_returns_success_flag [of sample_platform "''image.xml''" "''{x''" None empty_world]
  by (simp add: sample_platform_def create_xml_file_def build_root_def SubElement_def append_child_def
        tree_write_def Let_def)

text \<open>
  Claim C10.  Called with \<open>elements_data = None\<close>, \<open>create_xml_file\<close> behaves as for the
  one-element list \<open>[{'tag': 'element'}]\<close>: the root it builds has exactly one child, named
  \<open>element\<close>, without attributes, text or children, nothing is printed while building,
  and when the destination can be written this tree is what is serialized into the file
  and the result is \<open>True\<close>.
\<close>

theorem create_xml_file_default_elements:
  assumes "denied ev filename = None"
    and "xml_serialize ev (Element root_name [] None [Element ''element'' [] None []]) = Inr doc"
  shows "build_root root_name None w =
           (Element root_name [] None [Element ''element'' [] None []], w) \<and>
         create_xml_file ev filename root_name None w =
           create_xml_file ev filename root_name
             (Some [ElementData (Some ''element'') None None None]) w \<and>
         create_xml_file ev filename root_name None w =
           (True, print (''Successfully created XML file: '' @ filename)
                    (w\<lparr>files := (files w)(filename \<mapsto> doc)\<rparr>))"
proof -
  have b: "build_root root_name None w =
      (Element root_name [] None [Element ''element'' [] None []], w)"
    by (simp add: build_root_def SubElement_def append_child_def Let_def)
  have b': "build_root root_name (Some [ElementData (Some ''element'') None None None]) w =
      (Element root_name [] None [Element ''element'' [] None []], w)"
    by (simp add: build_root_def SubElement_def append_child_def Let_def)
  have c: "create_xml_file ev filename root_name None w =
      (True, print (''Successfully created XML file: '' @ filename)
               (w\<lparr>files := (files w)(filename \<mapsto> doc)\<rparr>))"
    unfolding create_xml_file_def b by (simp add: tree_write_def assms)
  have c': "create_xml_file ev filename root_name None w =
      create_xml_file ev filename root_name
        (Some [ElementData (Some ''element'') None None None]) w"
    unfolding create_xml_file_def b b' by (rule refl)
  from b c' c show ?thesis by (intro conjI)
qed

theorem create_xml_file_default_elements_witness:
  "denied sample_platform ''image.xml'' = None \<and>
   xml_serialize sample_platform (Element ''root'' [] None [Element ''element'' [] None []])
     = Inr [114, 111, 111, 116] \<and>
   create_xml_file sample_platform ''image.xml'' ''root'' None empty_world =
     (True, print (''Successfully created XML file: '' @ ''image.xml'')
              (empty_world\<lparr>files := (files empty_world)(''image.xml'' \<mapsto> [114, 111, 111, 116])\<rparr>))"
proof -
  have d: "denied sample_platform ''image.xml'' = None"
    by (simp add: sample_platform_def)
  have s: "xml_serialize sample_platform (Element ''root'' [] None [Element ''element'' [] None []])
      = Inr [114, 111, 111, 116]"
    by (simp add: sample_platform_def)
  from create_xml_file_default_elements [OF d s, of empty_world] d s
  show ?thesis by blast
qed

section \<open>Properties of the codec\<close>

text \<open>Bit-level facts about splitting three bytes into four groups of six bits.\<close>

lemma and_3_take_bit: "(a::byte) AND 3 = take_bit 2 a"
  by (simp add: take_bit_eq_mask mask_eq_exp_minus_1)
lemma and_15_take_bit: "(a::byte) AND 15 = take_bit 4 a"
  by (simp add: take_bit_eq_mask mask_eq_exp_minus_1)
lemma and_63_take_bit: "(a::byte) AND 63 = take_bit 6 a"
  by (simp add: take_bit_eq_mask mask_eq_exp_minus_1)

lemma index_shift: "2 \<le> n \<Longrightarrow> Suc (Suc (n - 2)) = n" "4 \<le> n \<Longrightarrow> 4 + (n - 4) = n" "6 \<le> n \<Longrightarrow> 6 + (n - 6) = n"
  "2 \<le> n \<Longrightarrow> 2 + (n - 2) = n"
  by simp_all

lemma join_first_byte: "push_bit 2 (drop_bit 2 a) OR drop_bit 4 (push_bit 4 (a AND 3) OR drop_bit 4 b) = (a::byte)"
  unfolding and_3_take_bit
proof (rule bit_word_eqI)
  fix n assume "n < LENGTH(8)"
  then show "bit (push_bit 2 (drop_bit 2 a) OR drop_bit 4 (push_bit 4 (take_bit 2 a) OR drop_bit 4 b)) n = bit a n"
    by (cases "n < 2") (auto simp add: bit_simps index_shift dest: bit_imp_le_length)
qed

lemma left_after_second: "(push_bit 4 (a AND 3) OR drop_bit 4 b) AND 15 = drop_bit 4 (b::byte)"
  unfolding and_3_take_bit and_15_take_bit
  apply (rule bit_word_eqI)
  apply (auto simp add: bit_simps index_shift dest: bit_imp_le_length)
  done

lemma join_second_byte: "push_bit 4 (drop_bit 4 b) OR drop_bit 2 (push_bit 2 (b AND 15) OR drop_bit 6 c) = (b::byte)"
  unfolding and_3_take_bit and_15_take_bit
proof (rule bit_word_eqI)
  fix n assume "n < LENGTH(8)"
  then show "bit (push_bit 4 (drop_bit 4 b) OR drop_bit 2 (push_bit 2 (take_bit 4 b) OR drop_bit 6 c)) n = bit b n"
    by (cases "n < 4") (auto simp add: bit_simps index_shift dest: bit_imp_le_length)
qed

lemma left_after_third: "(push_bit 2 (b AND 15) OR drop_bit 6 c) AND 3 = drop_bit 6 (c::byte)"
  unfolding and_3_take_bit and_15_take_bit
  apply (rule bit_word_eqI)
  apply (auto simp add: bit_simps index_shift dest: bit_imp_le_length)
  done

lemma join_third_byte: "push_bit 6 (drop_bit 6 c) OR (c AND 63) = (c::byte)"
  unfolding and_63_take_bit
proof (rule bit_word_eqI)
  fix n assume "n < LENGTH(8)"
  then show "bit (push_bit 6 (drop_bit 6 c) OR take_bit 6 c) n = bit c n"
    by (cases "n < 6") (auto simp add: bit_simps index_shift dest: bit_imp_le_length)
qed

lemma sextet_bound: "drop_bit 6 (x::byte) = 0 \<Longrightarrow> unat x < 64"
proof -
  assume "drop_bit 6 x = 0"
  then have "unat (x div 64) = 0" by (simp add: drop_bit_eq_div)
  then have "unat x div 64 = 0" by (simp add: unat_div)
  then show ?thesis by (simp add: div_eq_0_iff)
qed

lemma sextet1_small: "drop_bit 6 (drop_bit 2 (a::byte)) = 0"
  by (rule bit_word_eqI) (auto simp add: bit_simps dest: bit_imp_le_length)
lemma sextet2_small: "drop_bit 6 (push_bit 4 ((a::byte) AND 3) OR drop_bit 4 b) = 0"
  unfolding and_3_take_bit by (rule bit_word_eqI) (auto simp add: bit_simps dest: bit_imp_le_length)
lemma sextet3_small: "drop_bit 6 (push_bit 2 ((b::byte) AND 15) OR drop_bit 6 c) = 0"
  unfolding and_15_take_bit by (rule bit_word_eqI) (auto simp add: bit_simps dest: bit_imp_le_length)
lemma sextet4_small: "drop_bit 6 ((c::byte) AND 63) = 0"
  unfolding and_63_take_bit by (rule bit_word_eqI) (auto simp add: bit_simps dest: bit_imp_le_length)

lemma table_inverse:
  assumes "unat s < 64"
  shows "table_a2b_base64 (table_b2a_base64 s) = Some s"
proof -
  define n where "n = unat s"
  have s: "s = of_nat n" by (simp add: n_def)
  have n: "n < 64" using assms by (simp add: n_def)
  consider "n < 26" | "26 \<le> n" "n < 52" | "52 \<le> n" "n < 62" | "n = 62" | "n = 63"
    using n by linarith
  then have "table_a2b_base64 (table_b2a_base64 (of_nat n)) = Some (of_nat n)"
  proof cases
    case 1
    then show ?thesis
      by (simp add: table_a2b_base64_def table_b2a_base64_def Let_def unat_of_nat)
  next
    case 2
    then show ?thesis
      by (simp add: table_a2b_base64_def table_b2a_base64_def Let_def unat_of_nat)
  next
    case 3
    then have "n - 4 + 4 = n" "48 \<le> n - 4" "n - 4 \<le> 57" "n - 4 < 256" by simp_all
    with 3 show ?thesis
      by (auto simp add: table_a2b_base64_def table_b2a_base64_def Let_def unat_of_nat)
  next
    case 4
    then show ?thesis
      by (simp add: table_a2b_base64_def table_b2a_base64_def Let_def)
  next
    case 5
    then show ?thesis
      by (simp add: table_a2b_base64_def table_b2a_base64_def Let_def)
  qed
  then show ?thesis by (simp add: s)
qed

lemma table_ascii:
  assumes "unat s < 64"
  shows "table_b2a_base64 s \<noteq> CHR ''=''" and "(of_char (table_b2a_base64 s) :: nat) < 128"
proof -
  define n where "n = unat s"
  have n: "n < 64" using assms by (simp add: n_def)
  have eq: "(of_char (table_b2a_base64 s) :: nat) =
      (if n < 26 then n + 65 else if n < 52 then n + 71 else if n < 62 then n - 4
       else if n = 62 then 43 else 47)"
    using n by (simp add: table_b2a_base64_def Let_def n_def [symmetric])
  show "(of_char (table_b2a_base64 s) :: nat) < 128"
    unfolding eq using n by (auto split: if_splits)
  have "(of_char (table_b2a_base64 s) :: nat) \<noteq> 61"
    unfolding eq using n by (auto split: if_splits)
  then show "table_b2a_base64 s \<noteq> CHR ''=''" by auto
qed


end
